theory Spec2Isabelle
  imports Main "HOL-Library.Sublist"
begin

section \<open>The data of \<open>update_problems.py\<close>\<close>

text \<open>
  The script reads one JSON document, walks over the parsed value, and writes it back:
  \<^verbatim>\<open>
  with open(file_path, 'r') as f:
      problems = json.load(f)

  for p in problems:
      if 'problemType' not in p:
          p['problemType'] = 'code'

  with open(file_path, 'w') as f:
      json.dump(problems, f, indent=4)

  print(f"Updated {len(problems)} problems.")
  \<close>
  \<open>json.load\<close> returns a Python value built from \<open>dict\<close>, \<open>list\<close>, \<open>str\<close>,
  \<open>int\<close>, \<open>float\<close>, \<open>bool\<close> and \<open>None\<close>. A \<open>dict\<close> keeps its keys in insertion
  order, so it is an association list here; a Python \<open>int\<close> is unbounded, so it is an
  \<open>int\<close>. The script never looks inside a \<open>float\<close>: its carrier is the type
  parameter \<open>'f\<close>. A \<open>str\<close> is a \<open>string\<close>, one \<open>char\<close> for each character.
\<close>

datatype 'f json =
    JNull
  | JBool bool
  | JInt int
  | JFloat 'f
  | JStr string
  | JList "'f json list"
  | JDict "(string \<times> 'f json) list"

text \<open>
  Nothing is caught in the script, so every exception ends the run. The errors carry
  the names of the specification. \<open>NotFoundError\<close> is the \<open>OSError\<close> of
  \<open>open(file_path, 'r')\<close>. \<open>ParseError\<close> is whatever \<open>json.load\<close> raises:
  \<open>json.JSONDecodeError\<close> on a text that is not JSON, and also \<open>UnicodeDecodeError\<close>,
  the \<open>ValueError\<close> for an integer of too many digits and \<open>RecursionError\<close> for a
  nesting too deep, on texts that are JSON. \<open>TypeError\<close> is the one Python raises in
  the loop and in \<open>len\<close>. \<open>WriteError\<close> is the \<open>OSError\<close> of
  \<open>open(file_path, 'w')\<close> and whatever \<open>json.dump\<close> raises once the file is open
  (\<open>RecursionError\<close> on a nesting that \<open>json.load\<close> accepted, an \<open>OSError\<close>
  of the write).
\<close>

datatype error = NotFoundError | ParseError | TypeError | WriteError

datatype outcome = Completed | Raised error

text \<open>
  What \<open>json.dump\<close> does to the open file: it returns after writing the whole text,
  or it raises after writing a part of it.
\<close>

datatype dumped = Written string | Interrupted string

text \<open>
  What the script can touch: the file at \<open>file_path\<close> (\<open>None\<close> when it cannot be
  opened for reading), whether it can be opened for writing, and the lines printed so far.
\<close>

record world =
  file_text :: "string option"
  writable :: bool
  stdout :: "string list"

section \<open>The Python operations the script uses\<close>

text \<open>\<open>d[k] = v\<close> on a \<open>dict\<close>: a present key keeps its place, a new key goes last.\<close>

primrec dict_setitem :: "(string \<times> 'v) list \<Rightarrow> string \<Rightarrow> 'v \<Rightarrow> (string \<times> 'v) list" where
  "dict_setitem [] k v = [(k, v)]"
| "dict_setitem (kv # kvs) k v =
     (if fst kv = k then (k, v) # kvs else kv # dict_setitem kvs k v)"

text \<open>
  \<open>k in p\<close> for a \<open>str\<close> \<open>k\<close>: a key of a \<open>dict\<close>, an element of a \<open>list\<close>, a
  substring of a \<open>str\<close>; any other \<open>p\<close> raises \<open>TypeError\<close> (not iterable).
\<close>

fun py_contains :: "'f json \<Rightarrow> string \<Rightarrow> error + bool" where
  "py_contains (JDict kvs) k = Inr (k \<in> set (map fst kvs))"
| "py_contains (JList xs) k = Inr (JStr k \<in> set xs)"
| "py_contains (JStr s) k = Inr (sublist k s)"
| "py_contains _ k = Inl TypeError"

text \<open>
  \<open>p[k] = v\<close> for a \<open>str\<close> \<open>k\<close>: only a \<open>dict\<close> takes it; a \<open>list\<close> wants an integer
  index and a \<open>str\<close> supports no item assignment, both \<open>TypeError\<close>.
\<close>

fun py_setitem :: "'f json \<Rightarrow> string \<Rightarrow> 'f json \<Rightarrow> error + 'f json" where
  "py_setitem (JDict kvs) k v = Inr (JDict (dict_setitem kvs k v))"
| "py_setitem _ k v = Inl TypeError"

text \<open>
  What \<open>for p in problems\<close> walks over: the elements of a \<open>list\<close>, the keys of a
  \<open>dict\<close>, the characters of a \<open>str\<close>; anything else is not iterable.
\<close>

fun py_iter :: "'f json \<Rightarrow> error + 'f json list" where
  "py_iter (JList xs) = Inr xs"
| "py_iter (JDict kvs) = Inr (map (\<lambda>kv. JStr (fst kv)) kvs)"
| "py_iter (JStr s) = Inr (map (\<lambda>c. JStr [c]) s)"
| "py_iter _ = Inl TypeError"

fun py_len :: "'f json \<Rightarrow> error + nat" where
  "py_len (JList xs) = Inr (length xs)"
| "py_len (JDict kvs) = Inr (length kvs)"
| "py_len (JStr s) = Inr (length s)"
| "py_len _ = Inl TypeError"

text \<open>The decimal text of a length, as the f-string renders it.\<close>

definition digit_char :: "nat \<Rightarrow> char" where
  "digit_char d = ''0123456789'' ! d"

fun str_nat :: "nat \<Rightarrow> string" where
  "str_nat n = (if n < 10 then [digit_char n] else str_nat (n div 10) @ [digit_char (n mod 10)])"

declare str_nat.simps [simp del]

text \<open>The number a decimal text stands for, to say what \<open>str_nat\<close> renders.\<close>

definition digit_value :: "char \<Rightarrow> nat" where
  "digit_value c = of_char c - 48"

definition decimal_value :: "string \<Rightarrow> nat" where
  "decimal_value s = foldl (\<lambda>a c. 10 * a + digit_value c) 0 s"

section \<open>The transform loop\<close>

text \<open>The body of the loop, for one \<open>p\<close>.\<close>

definition body :: "'f json \<Rightarrow> error + 'f json" where
  "body p =
     (case py_contains p ''problemType'' of
        Inl e \<Rightarrow> Inl e
      | Inr present \<Rightarrow>
          if \<not> present then py_setitem p ''problemType'' (JStr ''code'') else Inr p)"

text \<open>The loop over the elements in order; the first exception ends it.\<close>

fun for_each :: "'f json list \<Rightarrow> error + 'f json list" where
  "for_each [] = Inr []"
| "for_each (p # ps) =
     (case body p of
        Inl e \<Rightarrow> Inl e
      | Inr p' \<Rightarrow> (case for_each ps of Inl e \<Rightarrow> Inl e | Inr ps' \<Rightarrow> Inr (p' # ps')))"

text \<open>
  The whole \<open>for\<close> statement, giving \<open>problems\<close> as it stands afterwards. The elements
  of a \<open>list\<close> are the objects the body mutates. The keys of a \<open>dict\<close> and the characters
  of a \<open>str\<close> are \<open>str\<close> objects, which the body cannot change: when the loop gets
  through, \<open>problems\<close> is as it was.
\<close>

definition transform :: "'f json \<Rightarrow> error + 'f json" where
  "transform problems =
     (case py_iter problems of
        Inl e \<Rightarrow> Inl e
      | Inr ps \<Rightarrow>
          (case for_each ps of
             Inl e \<Rightarrow> Inl e
           | Inr ps' \<Rightarrow> Inr (case problems of JList xs \<Rightarrow> JList ps' | _ \<Rightarrow> problems)))"

section \<open>The run\<close>

text \<open>
  \<open>open(file_path, 'r')\<close> and the read of the whole file; \<open>open(file_path, 'w')\<close>,
  which empties the file; a write at the end of the open file; \<open>print\<close>.
\<close>

definition open_read :: "world \<Rightarrow> error + string" where
  "open_read w = (case file_text w of None \<Rightarrow> Inl NotFoundError | Some text \<Rightarrow> Inr text)"

definition open_write :: "world \<Rightarrow> error + world" where
  "open_write w = (if writable w then Inr (w\<lparr>file_text := Some []\<rparr>) else Inl WriteError)"

definition file_write :: "world \<Rightarrow> string \<Rightarrow> world" where
  "file_write w s = w\<lparr>file_text := Some (case file_text w of None \<Rightarrow> s | Some old \<Rightarrow> old @ s)\<rparr>"

definition py_print :: "world \<Rightarrow> string \<Rightarrow> world" where
  "py_print w s = w\<lparr>stdout := stdout w @ [s]\<rparr>"

text \<open>
  The script from top to bottom. \<open>json.load\<close> and \<open>json.dump\<close> belong to Python's
  library: \<open>loads\<close> is the parser (\<open>None\<close> when \<open>json.load\<close> raises),
  \<open>dumps indent\<close> the serializer. The file is emptied when it is opened for writing,
  so a \<open>json.dump\<close> that raises leaves the part it wrote as the content of the file.
  The result is how the run ended and the world it left.
\<close>

definition run ::
  "(string \<Rightarrow> 'f json option) \<Rightarrow> (nat \<Rightarrow> 'f json \<Rightarrow> dumped) \<Rightarrow> world \<Rightarrow> outcome \<times> world" where
  "run loads dumps w =
     (case open_read w of
        Inl e \<Rightarrow> (Raised e, w)
      | Inr text \<Rightarrow>
          (case loads text of
             None \<Rightarrow> (Raised ParseError, w)
           | Some problems \<Rightarrow>
               (case transform problems of
                  Inl e \<Rightarrow> (Raised e, w)
                | Inr problems' \<Rightarrow>
                    (case open_write w of
                       Inl e \<Rightarrow> (Raised e, w)
                     | Inr w1 \<Rightarrow>
                         (case dumps 4 problems' of
                            Interrupted part \<Rightarrow> (Raised WriteError, file_write w1 part)
                          | Written out \<Rightarrow>
                              (let w2 = file_write w1 out in
                               case py_len problems' of
                                 Inl e \<Rightarrow> (Raised e, w2)
                               | Inr n \<Rightarrow>
                                   (Completed,
                                    py_print w2
                                      (''Updated '' @ str_nat n @ '' problems.''))))))))"

section \<open>Records and their fields\<close>

text \<open>
  A Record is a mapping, a Record Collection a sequence of Records. \<open>field p k\<close> is the
  value of \<open>k\<close> in the record \<open>p\<close>; \<open>other_fields p\<close> are its entries apart from
  \<open>problemType\<close>, in order.
\<close>

fun is_record :: "'f json \<Rightarrow> bool" where
  "is_record (JDict kvs) = True"
| "is_record _ = False"

fun field :: "'f json \<Rightarrow> string \<Rightarrow> 'f json option" where
  "field (JDict kvs) k = map_of kvs k"
| "field _ k = None"

fun other_fields :: "'f json \<Rightarrow> (string \<times> 'f json) list" where
  "other_fields (JDict kvs) = filter (\<lambda>kv. fst kv \<noteq> ''problemType'') kvs"
| "other_fields _ = []"

fun is_collection :: "'f json \<Rightarrow> bool" where
  "is_collection (JList rs) = list_all is_record rs"
| "is_collection _ = False"

section \<open>The example scenarios\<close>

text \<open>
  The first example scenario of the specification: two problems, the second of which
  has its \<open>problemType\<close> already. No float occurs, so the float carrier is \<open>unit\<close>.
\<close>

definition scenario_problems :: "unit json list" where
  "scenario_problems =
     [JDict [(''id'', JInt 1)],
      JDict [(''id'', JInt 2), (''problemType'', JStr ''quiz'')]]"

definition scenario_migrated :: "unit json list" where
  "scenario_migrated =
     [JDict [(''id'', JInt 1), (''problemType'', JStr ''code'')],
      JDict [(''id'', JInt 2), (''problemType'', JStr ''quiz'')]]"

text \<open>
  \<open>json.loads\<close> and \<open>json.dumps\<close> on the documents of the scenarios: the text of the
  first scenario, an empty object, a list of one number. Every other text stands for a
  document that \<open>json.loads\<close> rejects, every other value for one on which
  \<open>json.dump\<close> raises before it has written anything.
\<close>

definition scenario_text :: string where
  \<open>scenario_text = ''[{"id": 1}, {"id": 2, "problemType": "quiz"}]''\<close>

definition sample_loads :: "string \<Rightarrow> unit json option" where
  "sample_loads =
     map_of
       [(scenario_text, JList scenario_problems),
        (''{}'', JDict []),
        (''[1]'', JList [JInt 1])]"

fun join_lines :: "string list \<Rightarrow> string" where
  "join_lines [] = []"
| "join_lines [l] = l"
| "join_lines (l # ls) = l @ CHR 0x0A # join_lines ls"

definition scenario_output :: string where
  \<open>scenario_output =
     join_lines
       [''['',
        ''    {'',
        ''        "id": 1,'',
        ''        "problemType": "code"'',
        ''    },'',
        ''    {'',
        ''        "id": 2,'',
        ''        "problemType": "quiz"'',
        ''    }'',
        '']'']\<close>

definition sample_dumps :: "nat \<Rightarrow> unit json \<Rightarrow> dumped" where
  "sample_dumps indent v =
     (if indent = 4 \<and> v = JList scenario_migrated then Written scenario_output
      else if indent = 4 \<and> v = JDict [] then Written ''{}''
      else Interrupted [])"

definition scenario_world :: world where
  "scenario_world = \<lparr>file_text = Some scenario_text, writable = True, stdout = []\<rparr>"

definition empty_object_world :: world where
  "empty_object_world = \<lparr>file_text = Some ''{}'', writable = True, stdout = []\<rparr>"

definition number_list_world :: world where
  "number_list_world = \<lparr>file_text = Some ''[1]'', writable = True, stdout = []\<rparr>"

definition broken_world :: world where
  "broken_world = \<lparr>file_text = Some ''[{'', writable = True, stdout = [''earlier line'']\<rparr>"

section \<open>Properties of the loop\<close>

lemma dict_setitem_absent:
  "k \<notin> fst ` set kvs \<Longrightarrow> dict_setitem kvs k v = kvs @ [(k, v)]"
  by (induction kvs) auto

lemma body_record:
  "body (JDict kvs) =
     Inr (JDict (if ''problemType'' \<in> fst ` set kvs then kvs
                 else kvs @ [(''problemType'', JStr ''code'')]))"
  by (simp add: body_def dict_setitem_absent)

lemma for_each_iff:
  "for_each ps = Inr ps' \<longleftrightarrow> list_all2 (\<lambda>p p'. body p = Inr p') ps ps'"
proof (induction ps arbitrary: ps')
  case Nil
  show ?case by auto
next
  case (Cons p ps)
  show ?case
    by (cases ps') (auto simp: Cons.IH [symmetric] split: sum.splits)
qed

lemma for_each_records:
  assumes "list_all is_record rs"
  shows "\<exists>rs'. for_each rs = Inr rs'"
  using assms
proof (induction rs)
  case Nil
  show ?case by simp
next
  case (Cons r rs)
  then obtain rs' where rs': "for_each rs = Inr rs'" by auto
  from Cons.prems obtain kvs where "r = JDict kvs" by (cases r) auto
  then show ?case by (simp add: body_record rs')
qed

lemma transform_collection:
  assumes "list_all is_record rs"
  shows "\<exists>rs'. transform (JList rs) = Inr (JList rs') \<and> length rs' = length rs \<and>
           (\<forall>i < length rs. body (rs ! i) = Inr (rs' ! i))"
proof -
  from for_each_records [OF assms] obtain rs' where rs': "for_each rs = Inr rs'" ..
  then have "list_all2 (\<lambda>p p'. body p = Inr p') rs rs'" by (simp add: for_each_iff)
  then have "length rs' = length rs" "\<forall>i < length rs. body (rs ! i) = Inr (rs' ! i)"
    by (simp_all add: list_all2_conv_all_nth)
  with rs' show ?thesis by (simp add: transform_def)
qed

lemma record_at:
  assumes "list_all is_record rs" and "i < length rs"
  obtains kvs where "rs ! i = JDict kvs"
proof -
  from assms have "is_record (rs ! i)" by (simp add: list_all_length)
  then show ?thesis using that by (cases "rs ! i") auto
qed

lemma body_idem:
  assumes "body p = Inr p'"
  shows "body p' = Inr p'"
proof (cases p)
  case (JDict kvs)
  with assms have "p' = JDict (if ''problemType'' \<in> fst ` set kvs then kvs
                               else kvs @ [(''problemType'', JStr ''code'')])"
    by (simp add: body_record)
  then show ?thesis by (simp add: body_record)
qed (use assms in \<open>auto simp: body_def split: if_splits\<close>)

lemma for_each_idem: "for_each ps = Inr ps' \<Longrightarrow> for_each ps' = Inr ps'"
proof (induction ps arbitrary: ps')
  case Nil
  then show ?case by simp
next
  case (Cons p ps)
  then show ?case by (auto split: sum.splits dest: body_idem)
qed

lemma body_str: "body (JStr s) = Inr p' \<Longrightarrow> p' = JStr s"
  by (auto simp: body_def split: if_splits)

lemma transform_idem: "transform x = Inr y \<Longrightarrow> transform y = Inr y"
  by (cases x) (auto simp: transform_def split: sum.splits dest: for_each_idem)

section \<open>The claims about the transform\<close>

text \<open>
  C1 (default correctness). In a collection of records, a record that lacks the key
  \<open>problemType\<close> comes out of the transform, at the same position, with
  \<open>problemType\<close> equal to the string \<open>code\<close>.
\<close>

theorem default_correctness:
  assumes "list_all is_record rs" and "i < length rs"
    and "field (rs ! i) ''problemType'' = None"
  shows "\<exists>rs'. transform (JList rs) = Inr (JList rs') \<and> length rs' = length rs \<and>
           field (rs' ! i) ''problemType'' = Some (JStr ''code'')"
proof -
  from transform_collection [OF assms(1)] obtain rs' where
    t: "transform (JList rs) = Inr (JList rs')" and l: "length rs' = length rs" and
    b: "\<forall>i < length rs. body (rs ! i) = Inr (rs' ! i)" by blast
  from record_at [OF assms(1,2)] obtain kvs where kvs: "rs ! i = JDict kvs" .
  with assms(3) have absent: "''problemType'' \<notin> fst ` set kvs"
    by (simp add: map_of_eq_None_iff)
  from b assms(2) kvs have "body (JDict kvs) = Inr (rs' ! i)" by auto
  with absent have "rs' ! i = JDict (kvs @ [(''problemType'', JStr ''code'')])"
    by (simp add: body_record)
  with assms(3) kvs have "field (rs' ! i) ''problemType'' = Some (JStr ''code'')"
    by (simp add: map_add_def)
  with t l show ?thesis by blast
qed

theorem default_correctness_witness:
  "list_all is_record scenario_problems \<and> 0 < length scenario_problems \<and>
   field (scenario_problems ! 0) ''problemType'' = None \<and>
   (\<exists>rs'. transform (JList scenario_problems) = Inr (JList rs') \<and>
      length rs' = length scenario_problems \<and>
      field (rs' ! 0) ''problemType'' = Some (JStr ''code''))"
proof -
  have h: "list_all is_record scenario_problems" "0 < length scenario_problems"
    "field (scenario_problems ! 0) ''problemType'' = None"
    by (simp_all add: scenario_problems_def)
  from default_correctness [OF h] h show ?thesis by blast
qed

text \<open>
  C2 (idempotence). For every collection of records the transform gets through, and the
  transform of its result is that result again: a second pass changes no record.
\<close>

theorem idempotence:
  assumes "list_all is_record rs"
  shows "\<exists>rs'. transform (JList rs) = Inr (JList rs') \<and>
           transform (JList rs') = Inr (JList rs')"
proof -
  from transform_collection [OF assms] obtain rs' where
    t: "transform (JList rs) = Inr (JList rs')" by blast
  from transform_idem [OF t] t show ?thesis by blast
qed

theorem idempotence_witness:
  "list_all is_record scenario_problems \<and>
   (\<exists>rs'. transform (JList scenario_problems) = Inr (JList rs') \<and>
      transform (JList rs') = Inr (JList rs'))"
proof -
  have h: "list_all is_record scenario_problems"
    by (simp add: scenario_problems_def)
  from idempotence [OF h] h show ?thesis by blast
qed

text \<open>
  C3 (field preservation). In a collection of records, the record at each position comes
  out with the same entries apart from \<open>problemType\<close>, in the same order: every key
  other than \<open>problemType\<close> has the value it had, and is absent when it was absent.
\<close>

theorem field_preservation:
  assumes "list_all is_record rs" and "i < length rs"
  shows "\<exists>rs'. transform (JList rs) = Inr (JList rs') \<and> length rs' = length rs \<and>
           is_record (rs' ! i) \<and>
           other_fields (rs' ! i) = other_fields (rs ! i) \<and>
           (\<forall>k. k \<noteq> ''problemType'' \<longrightarrow> field (rs' ! i) k = field (rs ! i) k)"
proof -
  from transform_collection [OF assms(1)] obtain rs' where
    t: "transform (JList rs) = Inr (JList rs')" and l: "length rs' = length rs" and
    b: "\<forall>i < length rs. body (rs ! i) = Inr (rs' ! i)" by blast
  from record_at [OF assms] obtain kvs where kvs: "rs ! i = JDict kvs" .
  from b assms(2) kvs have "body (JDict kvs) = Inr (rs' ! i)" by auto
  then have out: "rs' ! i = JDict (if ''problemType'' \<in> fst ` set kvs then kvs
                                   else kvs @ [(''problemType'', JStr ''code'')])"
    by (simp add: body_record)
  have "is_record (rs' ! i)"
    by (simp add: out)
  moreover have "other_fields (rs' ! i) = other_fields (rs ! i)"
    by (simp add: out kvs)
  moreover have "\<forall>k. k \<noteq> ''problemType'' \<longrightarrow> field (rs' ! i) k = field (rs ! i) k"
    by (auto simp: out kvs map_add_def split: option.splits)
  ultimately show ?thesis using t l by blast
qed

theorem field_preservation_witness:
  "list_all is_record scenario_problems \<and> 0 < length scenario_problems \<and>
   (\<exists>rs'. transform (JList scenario_problems) = Inr (JList rs') \<and>
      length rs' = length scenario_problems \<and> is_record (rs' ! 0) \<and>
      other_fields (rs' ! 0) = [(''id'', JInt 1)] \<and>
      field (rs' ! 0) ''id'' = Some (JInt 1))"
proof -
  have h: "list_all is_record scenario_problems" "0 < length scenario_problems"
    by (simp_all add: scenario_problems_def)
  have o: "other_fields (scenario_problems ! 0) = [(''id'', JInt 1)]"
    "field (scenario_problems ! 0) ''id'' = Some (JInt 1)"
    by (simp_all add: scenario_problems_def)
  from field_preservation [OF h] obtain rs' where
    "transform (JList scenario_problems) = Inr (JList rs')"
    "length rs' = length scenario_problems" "is_record (rs' ! 0)"
    "other_fields (rs' ! 0) = other_fields (scenario_problems ! 0)"
    "\<forall>k. k \<noteq> ''problemType'' \<longrightarrow> field (rs' ! 0) k = field (scenario_problems ! 0) k"
    by blast
  moreover from this(5) have "field (rs' ! 0) ''id'' = field (scenario_problems ! 0) ''id''"
    by simp
  ultimately show ?thesis using h o by auto
qed

text \<open>
  C4 (non-override). In a collection of records, a record that has the key
  \<open>problemType\<close>, whatever its value, comes out with that value; the record is
  not changed at all.
\<close>

theorem non_override:
  assumes "list_all is_record rs" and "i < length rs"
    and "field (rs ! i) ''problemType'' = Some v"
  shows "\<exists>rs'. transform (JList rs) = Inr (JList rs') \<and> length rs' = length rs \<and>
           field (rs' ! i) ''problemType'' = Some v \<and> rs' ! i = rs ! i"
proof -
  from transform_collection [OF assms(1)] obtain rs' where
    t: "transform (JList rs) = Inr (JList rs')" and l: "length rs' = length rs" and
    b: "\<forall>i < length rs. body (rs ! i) = Inr (rs' ! i)" by blast
  from record_at [OF assms(1,2)] obtain kvs where kvs: "rs ! i = JDict kvs" .
  with assms(3) have "map_of kvs ''problemType'' = Some v" by simp
  then have present: "''problemType'' \<in> fst ` set kvs"
    by (metis domI dom_map_of_conv_image_fst)
  from b assms(2) kvs have "body (JDict kvs) = Inr (rs' ! i)" by auto
  with present have "rs' ! i = rs ! i"
    by (simp add: body_record kvs)
  with assms(3) t l show ?thesis by auto
qed

theorem non_override_witness:
  "list_all is_record scenario_problems \<and> 1 < length scenario_problems \<and>
   field (scenario_problems ! 1) ''problemType'' = Some (JStr ''quiz'') \<and>
   (\<exists>rs'. transform (JList scenario_problems) = Inr (JList rs') \<and>
      length rs' = length scenario_problems \<and>
      field (rs' ! 1) ''problemType'' = Some (JStr ''quiz'') \<and>
      rs' ! 1 = scenario_problems ! 1)"
proof -
  have h: "list_all is_record scenario_problems" "1 < length scenario_problems"
    "field (scenario_problems ! 1) ''problemType'' = Some (JStr ''quiz'')"
    by (simp_all add: scenario_problems_def)
  from non_override [OF h] h show ?thesis by blast
qed

section \<open>Properties of the run\<close>

lemma body_error: "body p = Inl e \<Longrightarrow> e = TypeError"
  by (cases p) (auto simp: body_def split: if_splits)

lemma for_each_error: "for_each ps = Inl e \<Longrightarrow> e = TypeError"
  by (induction ps) (auto split: sum.splits dest: body_error)

lemma transform_error: "transform x = Inl e \<Longrightarrow> e = TypeError"
  by (cases x) (auto simp: transform_def split: sum.splits dest: for_each_error)

lemma transform_len:
  assumes "transform x = Inr y"
  shows "py_len y = py_len x \<and> (\<exists>n. py_len x = Inr n)"
proof (cases x)
  case (JList xs)
  with assms obtain ys where "for_each xs = Inr ys" "y = JList ys"
    by (auto simp: transform_def split: sum.splits)
  moreover from this(1) have "length ys = length xs"
    by (simp add: for_each_iff list_all2_lengthD)
  ultimately show ?thesis using JList by simp
qed (use assms in \<open>auto simp: transform_def split: sum.splits\<close>)

text \<open>
  Once the loop is through, the run is decided by the write: the file cannot be opened,
  or \<open>json.dump\<close> raises on the way, or the whole text is written and the line printed.
\<close>

lemma run_after_loop:
  assumes "file_text w = Some doc" and "loads doc = Some problems"
    and "transform problems = Inr problems'"
  shows "\<exists>n. py_len problems = Inr n \<and>
           run loads dumps w =
             (if writable w then
                (case dumps 4 problems' of
                   Written out \<Rightarrow>
                     (Completed,
                      w\<lparr>file_text := Some out,
                        stdout := stdout w @ [''Updated '' @ str_nat n @ '' problems.'']\<rparr>)
                 | Interrupted part \<Rightarrow> (Raised WriteError, w\<lparr>file_text := Some part\<rparr>))
              else (Raised WriteError, w))"
proof -
  from transform_len [OF assms(3)] obtain n where
    n: "py_len problems = Inr n" "py_len problems' = Inr n" by auto
  with assms have "run loads dumps w =
      (if writable w then
         (case dumps 4 problems' of
            Written out \<Rightarrow>
              (Completed,
               w\<lparr>file_text := Some out,
                 stdout := stdout w @ [''Updated '' @ str_nat n @ '' problems.'']\<rparr>)
          | Interrupted part \<Rightarrow> (Raised WriteError, w\<lparr>file_text := Some part\<rparr>))
       else (Raised WriteError, w))"
    by (simp add: run_def open_read_def open_write_def file_write_def py_print_def
        split: dumped.splits)
  with n(1) show ?thesis by blast
qed

lemma run_completed:
  assumes "run loads dumps w = (Completed, w')"
  obtains doc problems problems' out n where
    "file_text w = Some doc" and "loads doc = Some problems"
    and "transform problems = Inr problems'" and "writable w"
    and "dumps 4 problems' = Written out" and "py_len problems = Inr n"
    and "w' = w\<lparr>file_text := Some out,
                 stdout := stdout w @ [''Updated '' @ str_nat n @ '' problems.'']\<rparr>"
proof -
  from assms obtain doc where 1: "file_text w = Some doc"
    by (cases "file_text w") (auto simp: run_def open_read_def)
  with assms obtain problems where 2: "loads doc = Some problems"
    by (cases "loads doc") (auto simp: run_def open_read_def)
  with assms 1 obtain problems' where 3: "transform problems = Inr problems'"
    by (cases "transform problems") (auto simp: run_def open_read_def)
  from run_after_loop [where loads = loads and dumps = dumps, OF 1 2 3] obtain n where
    n: "py_len problems = Inr n" and
    r: "run loads dumps w =
      (if writable w then
         (case dumps 4 problems' of
            Written out \<Rightarrow>
              (Completed,
               w\<lparr>file_text := Some out,
                 stdout := stdout w @ [''Updated '' @ str_nat n @ '' problems.'']\<rparr>)
          | Interrupted part \<Rightarrow> (Raised WriteError, w\<lparr>file_text := Some part\<rparr>))
       else (Raised WriteError, w))" by blast
  from r assms have 4: "writable w" by (cases "writable w") auto
  with r assms obtain out where 5: "dumps 4 problems' = Written out"
    by (cases "dumps 4 problems'") auto
  with r 4 assms have "w' = w\<lparr>file_text := Some out,
      stdout := stdout w @ [''Updated '' @ str_nat n @ '' problems.'']\<rparr>" by simp
  with 1 2 3 4 5 n show ?thesis by (rule that)
qed

text \<open>
  On a collection of records the loop always gets through, so such a run completes
  exactly when the file can be opened for writing and \<open>json.dump\<close> writes its text
  in full.
\<close>

lemma collection_run:
  assumes "file_text w = Some doc" and "loads doc = Some (JList rs)"
    and "list_all is_record rs"
  shows "\<exists>rs'. transform (JList rs) = Inr (JList rs') \<and>
           run loads dumps w =
             (if writable w then
                (case dumps 4 (JList rs') of
                   Written out \<Rightarrow>
                     (Completed,
                      w\<lparr>file_text := Some out,
                        stdout := stdout w @
                          [''Updated '' @ str_nat (length rs) @ '' problems.'']\<rparr>)
                 | Interrupted part \<Rightarrow> (Raised WriteError, w\<lparr>file_text := Some part\<rparr>))
              else (Raised WriteError, w))"
proof -
  from transform_collection [OF assms(3)] obtain rs' where
    t: "transform (JList rs) = Inr (JList rs')" by blast
  from run_after_loop [where loads = loads and dumps = dumps, OF assms(1,2) t] t
  show ?thesis by auto
qed

lemma digit_value_char:
  assumes "d < 10"
  shows "digit_value (digit_char d) = d"
proof -
  from assms have "d = 0 \<or> d = 1 \<or> d = 2 \<or> d = 3 \<or> d = 4 \<or> d = 5 \<or> d = 6 \<or> d = 7 \<or>
    d = 8 \<or> d = 9" by arith
  then show ?thesis
    by (elim disjE) (simp_all add: digit_value_def digit_char_def)
qed

lemma decimal_value_str_nat: "decimal_value (str_nat n) = n"
proof (induction n rule: str_nat.induct)
  case (1 n)
  show ?case
  proof (cases "n < 10")
    case True
    then show ?thesis
      by (simp add: str_nat.simps [of n] decimal_value_def digit_value_char)
  next
    case False
    with 1 have "decimal_value (str_nat (n div 10)) = n div 10" by simp
    with False show ?thesis
      by (simp add: str_nat.simps [of n] decimal_value_def digit_value_char)
  qed
qed

text \<open>The runs of the example scenarios.\<close>

lemma scenario_run:
  "run sample_loads sample_dumps scenario_world =
     (Completed,
      \<lparr>file_text = Some scenario_output, writable = True, stdout = [''Updated 2 problems.'']\<rparr>)"
  by (simp add: run_def open_read_def open_write_def file_write_def py_print_def
      scenario_world_def sample_loads_def sample_dumps_def scenario_problems_def
      scenario_migrated_def scenario_text_def transform_def body_def
      str_nat.simps [of "Suc (Suc 0)"] digit_char_def)

lemma broken_run:
  "run sample_loads sample_dumps broken_world = (Raised ParseError, broken_world)"
  by (simp add: run_def open_read_def broken_world_def sample_loads_def scenario_text_def)

lemma number_list_run:
  "run sample_loads sample_dumps number_list_world = (Raised TypeError, number_list_world)"
  by (simp add: run_def open_read_def number_list_world_def sample_loads_def
      scenario_text_def transform_def body_def)

lemma empty_object_run:
  "run sample_loads sample_dumps empty_object_world =
     (Completed, \<lparr>file_text = Some ''{}'', writable = True, stdout = [''Updated 0 problems.'']\<rparr>)"
  by (simp add: run_def open_read_def open_write_def file_write_def py_print_def
      empty_object_world_def sample_loads_def sample_dumps_def scenario_text_def
      transform_def str_nat.simps [of 0] digit_char_def)

section \<open>The claims about the run\<close>

text \<open>
  C5 (cardinality and order). When a run on a collection of records completes, the
  collection it has written has as many records as the one it read; the record at each
  position is the input record at that position, as it was or with \<open>problemType\<close>
  added at its end.
\<close>

theorem cardinality_and_order:
  assumes "run loads dumps w = (Completed, w')"
    and "file_text w = Some doc" and "loads doc = Some (JList rs)"
    and "list_all is_record rs"
  shows "\<exists>rs' out. dumps 4 (JList rs') = Written out \<and> file_text w' = Some out \<and>
           length rs' = length rs \<and>
           list_all2 (\<lambda>r r'. r' = r \<or>
               (\<exists>kvs. r = JDict kvs \<and> r' = JDict (kvs @ [(''problemType'', JStr ''code'')])))
             rs rs'"
proof -
  from transform_collection [OF assms(4)] obtain rs' where
    t: "transform (JList rs) = Inr (JList rs')" and l: "length rs' = length rs" and
    b: "\<forall>i < length rs. body (rs ! i) = Inr (rs' ! i)" by blast
  from assms(1) obtain doc' problems problems' out n where c:
    "file_text w = Some doc'" "loads doc' = Some problems"
    "transform problems = Inr problems'" "dumps 4 problems' = Written out"
    "w' = w\<lparr>file_text := Some out,
             stdout := stdout w @ [''Updated '' @ str_nat n @ '' problems.'']\<rparr>"
    by (rule run_completed)
  from c(1,2,3) assms(2,3) t have "problems' = JList rs'" by simp
  with c(4,5) have w: "dumps 4 (JList rs') = Written out" "file_text w' = Some out"
    by simp_all
  have "list_all2 (\<lambda>r r'. r' = r \<or>
      (\<exists>kvs. r = JDict kvs \<and> r' = JDict (kvs @ [(''problemType'', JStr ''code'')]))) rs rs'"
    unfolding list_all2_conv_all_nth
  proof (intro conjI allI impI)
    show "length rs = length rs'" using l by simp
  next
    fix i assume i: "i < length rs"
    from record_at [OF assms(4) i] obtain kvs where kvs: "rs ! i = JDict kvs" .
    from b i kvs have "body (JDict kvs) = Inr (rs' ! i)" by auto
    then have "rs' ! i = JDict (if ''problemType'' \<in> fst ` set kvs then kvs
                                else kvs @ [(''problemType'', JStr ''code'')])"
      by (simp add: body_record)
    with kvs show "rs' ! i = rs ! i \<or>
      (\<exists>kvs. rs ! i = JDict kvs \<and> rs' ! i = JDict (kvs @ [(''problemType'', JStr ''code'')]))"
      by (cases "''problemType'' \<in> fst ` set kvs") simp_all
  qed
  with w l show ?thesis by blast
qed

theorem cardinality_and_order_witness:
  "run sample_loads sample_dumps scenario_world =
     (Completed,
      \<lparr>file_text = Some scenario_output, writable = True, stdout = [''Updated 2 problems.'']\<rparr>) \<and>
   file_text scenario_world = Some scenario_text \<and>
   sample_loads scenario_text = Some (JList scenario_problems) \<and>
   list_all is_record scenario_problems \<and>
   (\<exists>rs' out. sample_dumps 4 (JList rs') = Written out \<and> Some scenario_output = Some out \<and>
      length rs' = length scenario_problems \<and>
      list_all2 (\<lambda>r r'. r' = r \<or>
          (\<exists>kvs. r = JDict kvs \<and> r' = JDict (kvs @ [(''problemType'', JStr ''code'')])))
        scenario_problems rs')"
proof -
  have h: "file_text scenario_world = Some scenario_text"
    "sample_loads scenario_text = Some (JList scenario_problems)"
    "list_all is_record scenario_problems"
    by (simp_all add: scenario_world_def sample_loads_def scenario_problems_def)
  from cardinality_and_order [OF scenario_run h] scenario_run h
  show ?thesis by simp
qed

text \<open>
  C6 (reported count). A run that completes on a list adds exactly one line to the
  standard output, \<open>Updated n problems.\<close>, where \<open>n\<close> is the decimal text of the
  number of top-level entries of the list, whatever the loop did to them.
\<close>

theorem reported_count:
  assumes "run loads dumps w = (Completed, w')"
    and "file_text w = Some doc" and "loads doc = Some (JList rs)"
  shows "stdout w' = stdout w @ [''Updated '' @ str_nat (length rs) @ '' problems.''] \<and>
         decimal_value (str_nat (length rs)) = length rs"
proof -
  from assms(1) obtain doc' problems problems' out n where
    "file_text w = Some doc'" "loads doc' = Some problems"
    "dumps 4 problems' = Written out" "py_len problems = Inr n"
    "w' = w\<lparr>file_text := Some out,
             stdout := stdout w @ [''Updated '' @ str_nat n @ '' problems.'']\<rparr>"
    by (rule run_completed)
  with assms(2,3) show ?thesis
    by (auto simp: decimal_value_str_nat)
qed

theorem reported_count_witness:
  "run sample_loads sample_dumps scenario_world =
     (Completed,
      \<lparr>file_text = Some scenario_output, writable = True, stdout = [''Updated 2 problems.'']\<rparr>) \<and>
   file_text scenario_world = Some scenario_text \<and>
   sample_loads scenario_text = Some (JList scenario_problems) \<and>
   [''Updated 2 problems.''] =
     stdout scenario_world @ [''Updated '' @ str_nat (length scenario_problems) @ '' problems.''] \<and>
   decimal_value (str_nat (length scenario_problems)) = length scenario_problems"
proof -
  have h: "file_text scenario_world = Some scenario_text"
    "sample_loads scenario_text = Some (JList scenario_problems)"
    by (simp_all add: scenario_world_def sample_loads_def)
  from reported_count [OF scenario_run h] scenario_run h show ?thesis by simp
qed

text \<open>
  C7 (parse failure). When \<open>json.load\<close> rejects the content of the file, the run ends
  with that error and leaves everything as it was: the file is never opened for writing
  and nothing is printed.
\<close>

theorem parse_failure_leaves_resource:
  assumes "file_text w = Some doc" and "loads doc = None"
  shows "run loads dumps w = (Raised ParseError, w)"
  using assms by (simp add: run_def open_read_def)

theorem parse_failure_leaves_resource_witness:
  "file_text broken_world = Some ''[{'' \<and> sample_loads ''[{'' = None \<and>
   run sample_loads sample_dumps broken_world = (Raised ParseError, broken_world)"
proof -
  have h: "file_text broken_world = Some ''[{''" "sample_loads ''[{'' = None"
    by (simp_all add: broken_world_def sample_loads_def scenario_text_def)
  from parse_failure_leaves_resource [where loads = sample_loads and dumps = sample_dumps, OF h] h
  show ?thesis by simp
qed

text \<open>
  C8 (parse error), as the code has it. The run ends with a \<open>ParseError\<close> exactly
  when \<open>json.load\<close> raises on the content of the file. Nothing in the script checks
  that the parsed value is a sequence of mappings. When the loop raises on the parsed
  value, the run ends with a \<open>TypeError\<close> and everything is as it was. When the loop
  gets through, whatever the shape of the value, the run goes on to the write: it ends
  with a \<open>WriteError\<close> and the file as it was when the file cannot be opened for
  writing, it ends with a \<open>WriteError\<close> and the written part in the file when
  \<open>json.dump\<close> raises, and otherwise it completes with the serialized value in the
  file and the count line printed.
\<close>

theorem parse_error_exactly:
  assumes "file_text w = Some doc"
  shows "(fst (run loads dumps w) = Raised ParseError \<longleftrightarrow> loads doc = None) \<and>
         (\<forall>v e. loads doc = Some v \<longrightarrow> transform v = Inl e \<longrightarrow>
            run loads dumps w = (Raised TypeError, w)) \<and>
         (\<forall>v v'. loads doc = Some v \<longrightarrow> transform v = Inr v' \<longrightarrow>
            (\<exists>n. py_len v = Inr n \<and>
               run loads dumps w =
                 (if writable w then
                    (case dumps 4 v' of
                       Written out \<Rightarrow>
                         (Completed,
                          w\<lparr>file_text := Some out,
                            stdout := stdout w @ [''Updated '' @ str_nat n @ '' problems.'']\<rparr>)
                     | Interrupted part \<Rightarrow> (Raised WriteError, w\<lparr>file_text := Some part\<rparr>))
                  else (Raised WriteError, w))))"
proof (intro conjI allI impI)
  show "fst (run loads dumps w) = Raised ParseError \<longleftrightarrow> loads doc = None"
  proof (cases "loads doc")
    case None
    with assms show ?thesis by (simp add: run_def open_read_def)
  next
    case (Some v)
    show ?thesis
    proof (cases "transform v")
      case (Inl e)
      with transform_error [OF Inl] Some assms show ?thesis
        by (simp add: run_def open_read_def)
    next
      case (Inr v')
      from run_after_loop [where loads = loads and dumps = dumps, OF assms Some Inr]
      have "fst (run loads dumps w) \<noteq> Raised ParseError"
        by (cases "dumps 4 v'"; cases "writable w") auto
      with Some show ?thesis by simp
    qed
  qed
next
  fix v e
  assume "loads doc = Some v" and e: "transform v = Inl e"
  with transform_error [OF e] assms show "run loads dumps w = (Raised TypeError, w)"
    by (simp add: run_def open_read_def)
next
  fix v v'
  assume "loads doc = Some v" and "transform v = Inr v'"
  with assms show "\<exists>n. py_len v = Inr n \<and>
      run loads dumps w =
        (if writable w then
           (case dumps 4 v' of
              Written out \<Rightarrow>
                (Completed,
                 w\<lparr>file_text := Some out,
                   stdout := stdout w @ [''Updated '' @ str_nat n @ '' problems.'']\<rparr>)
            | Interrupted part \<Rightarrow> (Raised WriteError, w\<lparr>file_text := Some part\<rparr>))
         else (Raised WriteError, w))"
    by (rule run_after_loop)
qed

theorem parse_error_exactly_witness:
  "file_text number_list_world = Some ''[1]'' \<and>
   sample_loads ''[1]'' = Some (JList [JInt 1]) \<and>
   transform (JList [JInt 1] :: unit json) = Inl TypeError \<and>
   fst (run sample_loads sample_dumps number_list_world) \<noteq> Raised ParseError \<and>
   run sample_loads sample_dumps number_list_world = (Raised TypeError, number_list_world) \<and>
   file_text empty_object_world = Some ''{}'' \<and>
   sample_loads ''{}'' = Some (JDict []) \<and>
   transform (JDict [] :: unit json) = Inr (JDict []) \<and>
   writable empty_object_world \<and>
   sample_dumps 4 (JDict []) = Written ''{}'' \<and>
   py_len (JDict [] :: unit json) = Inr 0 \<and>
   run sample_loads sample_dumps empty_object_world =
     (Completed,
      empty_object_world
        \<lparr>file_text := Some ''{}'',
          stdout := stdout empty_object_world @ [''Updated '' @ str_nat 0 @ '' problems.'']\<rparr>) \<and>
   file_text broken_world = Some ''[{'' \<and>
   sample_loads ''[{'' = None \<and>
   fst (run sample_loads sample_dumps broken_world) = Raised ParseError"
proof -
  have h: "file_text number_list_world = Some ''[1]''"
    "sample_loads ''[1]'' = Some (JList [JInt 1])"
    "transform (JList [JInt 1] :: unit json) = Inl TypeError"
    by (simp_all add: number_list_world_def sample_loads_def scenario_text_def
        transform_def body_def)
  have k: "file_text empty_object_world = Some ''{}''"
    "sample_loads ''{}'' = Some (JDict [])"
    "transform (JDict [] :: unit json) = Inr (JDict [])"
    "writable empty_object_world"
    "sample_dumps 4 (JDict []) = Written ''{}''"
    "py_len (JDict [] :: unit json) = Inr 0"
    by (simp_all add: empty_object_world_def sample_loads_def sample_dumps_def
        scenario_text_def transform_def)
  have b: "file_text broken_world = Some ''[{''" "sample_loads ''[{'' = None"
    by (simp_all add: broken_world_def sample_loads_def scenario_text_def)
  note n = parse_error_exactly [where loads = sample_loads and dumps = sample_dumps, OF h(1)]
  note e = parse_error_exactly [where loads = sample_loads and dumps = sample_dumps, OF k(1)]
  note p = parse_error_exactly [where loads = sample_loads and dumps = sample_dumps, OF b(1)]
  from n h have 1: "fst (run sample_loads sample_dumps number_list_world) \<noteq> Raised ParseError"
    "run sample_loads sample_dumps number_list_world = (Raised TypeError, number_list_world)"
    by simp_all
  from e k have 2: "run sample_loads sample_dumps empty_object_world =
     (Completed,
      empty_object_world
        \<lparr>file_text := Some ''{}'',
          stdout := stdout empty_object_world @ [''Updated '' @ str_nat 0 @ '' problems.'']\<rparr>)"
    by simp
  from p b have 3: "fst (run sample_loads sample_dumps broken_world) = Raised ParseError"
    by simp
  from h k b 1 2 3 show ?thesis by simp
qed

text \<open>
  The sentence of the specification for C8 asks for a \<open>ParseError\<close> whenever the parsed
  value is not a sequence of mappings. Two documents show what the script does instead:
  on \<open>[1]\<close> the loop raises a \<open>TypeError\<close> at the number and the file stays as it
  was; on \<open>{}\<close> the loop has nothing to walk over, the file is written again and
  \<open>Updated 0 problems.\<close> is printed.
\<close>

theorem parse_error_counterexample:
  "file_text number_list_world = Some ''[1]'' \<and>
   sample_loads ''[1]'' = Some (JList [JInt 1]) \<and>
   \<not> is_collection (JList [JInt 1] :: unit json) \<and>
   run sample_loads sample_dumps number_list_world = (Raised TypeError, number_list_world) \<and>
   fst (run sample_loads sample_dumps number_list_world) \<noteq> Raised ParseError \<and>
   file_text empty_object_world = Some ''{}'' \<and>
   sample_loads ''{}'' = Some (JDict []) \<and>
   \<not> is_collection (JDict [] :: unit json) \<and>
   run sample_loads sample_dumps empty_object_world =
     (Completed, \<lparr>file_text = Some ''{}'', writable = True, stdout = [''Updated 0 problems.'']\<rparr>) \<and>
   fst (run sample_loads sample_dumps empty_object_world) \<noteq> Raised ParseError"
  by (simp add: number_list_run empty_object_run)
    (simp add: number_list_world_def empty_object_world_def sample_loads_def scenario_text_def)

text \<open>
  C9 (whole-file overwrite). After a run that completes, the file holds exactly the
  text the serializer has written in full for the transformed value at indentation 4:
  nothing of the earlier content is left before or after it.
\<close>

theorem whole_file_overwrite:
  assumes "run loads dumps w = (Completed, w')"
  shows "\<exists>doc problems problems' out. file_text w = Some doc \<and> loads doc = Some problems \<and>
           transform problems = Inr problems' \<and>
           dumps 4 problems' = Written out \<and>
           file_text w' = Some out"
proof -
  from assms obtain doc problems problems' out n where
    "file_text w = Some doc" "loads doc = Some problems"
    "transform problems = Inr problems'" "dumps 4 problems' = Written out"
    "w' = w\<lparr>file_text := Some out,
             stdout := stdout w @ [''Updated '' @ str_nat n @ '' problems.'']\<rparr>"
    by (rule run_completed)
  then show ?thesis by simp
qed

theorem whole_file_overwrite_witness:
  "run sample_loads sample_dumps scenario_world =
     (Completed,
      \<lparr>file_text = Some scenario_output, writable = True, stdout = [''Updated 2 problems.'']\<rparr>) \<and>
   (\<exists>doc problems problems' out. file_text scenario_world = Some doc \<and>
      sample_loads doc = Some problems \<and> transform problems = Inr problems' \<and>
      sample_dumps 4 problems' = Written out \<and>
      Some scenario_output = Some out)"
proof -
  from whole_file_overwrite [OF scenario_run] scenario_run show ?thesis by simp
qed

end
